theory Spec2Isabelle
  imports Complex_Main
begin

section \<open>Python values, exceptions and string conversion\<close>

text \<open>
  The program is \<^verbatim>\<open>src/logger.py\<close>: a \<^verbatim>\<open>logging.Formatter\<close> subclass
  (\<^verbatim>\<open>MyFormatter\<close>) and \<^verbatim>\<open>setup_logger\<close>. Python strings are modelled as
  \<^typ>\<open>string\<close>, one \<^typ>\<open>char\<close> per code point, so \<^term>\<open>length\<close> is Python's
  \<^verbatim>\<open>len\<close>. A raised exception is the \<open>Inl\<close> branch of a sum.

  \<open>Unmodelled\<close> is not a Python exception: it marks the inputs of a library function
  (format directives of \<^verbatim>\<open>%\<close> and \<^verbatim>\<open>strftime\<close> other than the ones spelled out
  below) whose behaviour this development does not describe.
\<close>

datatype py_error =
  TypeError | ValueError | OverflowError | OSError | PermissionError | FileNotFoundError
  | FileExistsError | Unmodelled

text \<open>
  The objects a caller can pass as a log message or as a \<^verbatim>\<open>%\<close>-argument. \<open>PyInstance r\<close>
  is an instance of a user class (an exception object, say) whose \<^verbatim>\<open>__str__\<close> returns
  or raises \<open>r\<close>.
\<close>

datatype py_obj =
  PyStr string | PyInt int | PyBool bool | PyNone | PyInstance "py_error + string"

definition digit_char :: "nat \<Rightarrow> char" where
  "digit_char d = ''0123456789'' ! d"

fun nat_str :: "nat \<Rightarrow> string" where
  "nat_str n = (if n < 10 then [digit_char n] else nat_str (n div 10) @ [digit_char (n mod 10)])"

declare nat_str.simps [simp del]

text \<open>\<^verbatim>\<open>str(i)\<close> for a Python int.\<close>

definition int_str :: "int \<Rightarrow> string" where
  "int_str i = (if i < 0 then CHR ''-'' # nat_str (nat (- i)) else nat_str (nat i))"

text \<open>\<^verbatim>\<open>str(obj)\<close>.\<close>

fun py_str :: "py_obj \<Rightarrow> py_error + string" where
  "py_str (PyStr s) = Inr s"
| "py_str (PyInt i) = Inr (int_str i)"
| "py_str (PyBool b) = Inr (if b then ''True'' else ''False'')"
| "py_str PyNone = Inr ''None''"
| "py_str (PyInstance r) = r"

text \<open>The integer a \<^verbatim>\<open>%d\<close> directive accepts; any other object is a \<^verbatim>\<open>TypeError\<close>.\<close>

fun py_int :: "py_obj \<Rightarrow> py_error + int" where
  "py_int (PyInt i) = Inr i"
| "py_int (PyBool b) = Inr (if b then 1 else 0)"
| "py_int _ = Inl TypeError"

definition prepend :: "string \<Rightarrow> py_error + string \<Rightarrow> py_error + string" where
  "prepend s r = (case r of Inl e \<Rightarrow> Inl e | Inr t \<Rightarrow> Inr (s @ t))"

text \<open>
  \<^verbatim>\<open>fmt % args\<close> for a tuple \<open>args\<close>, read left to right. Modelled directives:
  \<^verbatim>\<open>%s\<close>, \<^verbatim>\<open>%d\<close>, \<^verbatim>\<open>%i\<close> and \<^verbatim>\<open>%%\<close>. A lone \<^verbatim>\<open>%\<close> at the end is
  \<^verbatim>\<open>ValueError\<close> (incomplete format), a directive with no argument left is
  \<^verbatim>\<open>TypeError\<close> (not enough arguments), and arguments left over at the end are
  \<^verbatim>\<open>TypeError\<close> (not all arguments converted).
\<close>

fun py_mod :: "string \<Rightarrow> py_obj list \<Rightarrow> py_error + string" where
  "py_mod [] as = (if as = [] then Inr [] else Inl TypeError)"
| "py_mod (c # cs) as =
     (if c \<noteq> CHR ''%'' then prepend [c] (py_mod cs as)
      else (case cs of
              [] \<Rightarrow> Inl ValueError
            | d # rest \<Rightarrow>
                if d = CHR ''%'' then prepend ''%'' (py_mod rest as)
                else if d \<noteq> CHR ''s'' \<and> d \<noteq> CHR ''d'' \<and> d \<noteq> CHR ''i'' then Inl Unmodelled
                else (case as of
                        [] \<Rightarrow> Inl TypeError
                      | a # as' \<Rightarrow>
                          if d = CHR ''s''
                          then (case py_str a of
                                  Inl e \<Rightarrow> Inl e
                                | Inr s \<Rightarrow> prepend s (py_mod rest as'))
                          else (case py_int a of
                                  Inl e \<Rightarrow> Inl e
                                | Inr i \<Rightarrow> prepend (int_str i) (py_mod rest as')))))"

section \<open>Broken-down time and \<^verbatim>\<open>time.strftime\<close>\<close>

record struct_time =
  tm_year :: int
  tm_mon :: int
  tm_mday :: int
  tm_hour :: int
  tm_min :: int
  tm_sec :: int

text \<open>
  The range checks \<^verbatim>\<open>time.strftime\<close> makes on the fields of its tuple that the date
  format reads: a month or day of \<open>0\<close> is read as \<open>1\<close>, anything else out of range is a
  \<^verbatim>\<open>ValueError\<close>.
\<close>

definition checktm :: "struct_time \<Rightarrow> py_error + struct_time" where
  "checktm t =
     (let mon = (if tm_mon t = 0 then 1 else tm_mon t);
          mday = (if tm_mday t = 0 then 1 else tm_mday t)
      in if mon < 1 \<or> 12 < mon then Inl ValueError
         else if mday < 0 \<or> 31 < mday then Inl ValueError
         else if tm_hour t < 0 \<or> 23 < tm_hour t then Inl ValueError
         else if tm_min t < 0 \<or> 59 < tm_min t then Inl ValueError
         else if tm_sec t < 0 \<or> 61 < tm_sec t then Inl ValueError
         else Inr (t\<lparr>tm_mon := mon, tm_mday := mday\<rparr>))"

text \<open>C's \<^verbatim>\<open>%02d\<close>.\<close>

definition zpad2 :: "int \<Rightarrow> string" where
  "zpad2 i = (if 0 \<le> i \<and> i < 10 then CHR ''0'' # int_str i else int_str i)"

text \<open>
  The directives \<^verbatim>\<open>%Y %m %d %H %M %S %%\<close>. \<^verbatim>\<open>%Y\<close> is the year in decimal with no
  padding, as the C library prints it.
\<close>

fun strftime_chars :: "string \<Rightarrow> struct_time \<Rightarrow> py_error + string" where
  "strftime_chars [] t = Inr []"
| "strftime_chars (c # cs) t =
     (if c \<noteq> CHR ''%'' then prepend [c] (strftime_chars cs t)
      else (case cs of
              [] \<Rightarrow> Inl Unmodelled
            | d # rest \<Rightarrow>
                if d = CHR ''Y'' then prepend (int_str (tm_year t)) (strftime_chars rest t)
                else if d = CHR ''m'' then prepend (zpad2 (tm_mon t)) (strftime_chars rest t)
                else if d = CHR ''d'' then prepend (zpad2 (tm_mday t)) (strftime_chars rest t)
                else if d = CHR ''H'' then prepend (zpad2 (tm_hour t)) (strftime_chars rest t)
                else if d = CHR ''M'' then prepend (zpad2 (tm_min t)) (strftime_chars rest t)
                else if d = CHR ''S'' then prepend (zpad2 (tm_sec t)) (strftime_chars rest t)
                else if d = CHR ''%'' then prepend ''%'' (strftime_chars rest t)
                else Inl Unmodelled))"

definition strftime :: "string \<Rightarrow> struct_time \<Rightarrow> py_error + string" where
  "strftime fmt t = (case checktm t of Inl e \<Rightarrow> Inl e | Inr t' \<Rightarrow> strftime_chars fmt t')"

section \<open>Log records and the formatter\<close>

text \<open>
  The attributes of \<^verbatim>\<open>logging.LogRecord\<close> that \<^verbatim>\<open>MyFormatter.format\<close> reads.
  \<open>created\<close> is the float \<^verbatim>\<open>time.time()\<close> stored at creation; it is only handed to the
  formatter's converter.
\<close>

record log_record =
  levelname :: string
  levelno :: int
  pathname :: string
  lineno :: int
  msg :: py_obj
  args :: "py_obj list"
  created :: real

text \<open>
  \<^verbatim>\<open>LogRecord.getMessage\<close>: \<^verbatim>\<open>msg = str(self.msg); if self.args: msg = msg % self.args\<close>.
\<close>

definition getMessage :: "log_record \<Rightarrow> py_error + string" where
  "getMessage r =
     (case py_str (msg r) of
        Inl e \<Rightarrow> Inl e
      | Inr m \<Rightarrow> if args r \<noteq> [] then py_mod m (args r) else Inr m)"

definition DEBUG :: int where "DEBUG = 10"
definition INFO :: int where "INFO = 20"
definition WARNING :: int where "WARNING = 30"
definition ERROR :: int where "ERROR = 40"
definition CRITICAL :: int where "CRITICAL = 50"

text \<open>The class constants of \<^verbatim>\<open>MyFormatter\<close>.\<close>

definition LEVEL_WIDTH :: nat where "LEVEL_WIDTH = 8"

definition ESC :: char where "ESC = CHR 0x1B"

definition GREY :: string where "GREY = ESC # ''[38;20m''"
definition GREEN :: string where "GREEN = ESC # ''[32;20m''"
definition YELLOW :: string where "YELLOW = ESC # ''[33;20m''"
definition RED :: string where "RED = ESC # ''[31;20m''"
definition BLUE :: string where "BLUE = ESC # ''[34;20m''"
definition RESET :: string where "RESET = ESC # ''[0m''"

text \<open>The instance attributes set by \<^verbatim>\<open>MyFormatter.__init__\<close>.\<close>

record my_formatter =
  use_color :: bool
  datefmt :: string

definition MyFormatter :: "bool \<Rightarrow> my_formatter" where
  "MyFormatter uc = \<lparr>use_color = uc, datefmt = ''%Y-%m-%d %H:%M:%S''\<rparr>"

text \<open>
  \<^verbatim>\<open>Formatter.formatTime(record, datefmt)\<close>:
  \<^verbatim>\<open>ct = self.converter(record.created); if datefmt: s = time.strftime(datefmt, ct)\<close>.
  The converter (\<^verbatim>\<open>time.localtime\<close> unless overridden) depends on the time zone and
  raises on a timestamp out of range, so it is a parameter. The branch for an empty
  \<open>datefmt\<close> (default format with milliseconds) is never taken by \<^verbatim>\<open>MyFormatter\<close>.
\<close>

definition formatTime ::
  "(real \<Rightarrow> py_error + struct_time) \<Rightarrow> log_record \<Rightarrow> string \<Rightarrow> py_error + string" where
  "formatTime converter r fmt =
     (case converter (created r) of
        Inl e \<Rightarrow> Inl e
      | Inr ct \<Rightarrow> if fmt \<noteq> [] then strftime fmt ct else Inl Unmodelled)"

text \<open>\<^verbatim>\<open>f"{s:<{w}}"\<close>: left-justify, pad with spaces on the right up to width \<open>w\<close>.\<close>

definition ljust :: "string \<Rightarrow> nat \<Rightarrow> string" where
  "ljust s w = s @ replicate (w - length s) CHR '' ''"

text \<open>\<^verbatim>\<open>MyFormatter.format\<close>, step by step as in the source.\<close>

definition format ::
  "(real \<Rightarrow> py_error + struct_time) \<Rightarrow> my_formatter \<Rightarrow> log_record \<Rightarrow> py_error + string" where
  "format converter self r =
     (case formatTime converter r (datefmt self) of
        Inl e \<Rightarrow> Inl e
      | Inr timestamp \<Rightarrow>
          let level_raw = levelname r;
              level_str = ljust level_raw LEVEL_WIDTH;
              loc_str = pathname r @ '':'' @ int_str (lineno r)
          in if use_color self then
               let main_color =
                     (if levelno r = WARNING then YELLOW
                      else if levelno r \<ge> ERROR then RED
                      else GREY);
                   date_field = GREEN @ timestamp @ RESET;
                   level_field = main_color @ level_str @ RESET;
                   loc_field = BLUE @ loc_str @ RESET
               in (case getMessage r of
                     Inl e \<Rightarrow> Inl e
                   | Inr m \<Rightarrow>
                       let msg_field = main_color @ m @ RESET
                       in Inr (date_field @ '' | '' @ level_field @ '' | '' @ loc_field
                               @ '' | '' @ msg_field))
             else
               let date_field = timestamp;
                   level_field = level_str;
                   loc_field = loc_str
               in (case getMessage r of
                     Inl e \<Rightarrow> Inl e
                   | Inr m \<Rightarrow>
                       let msg_field = m
                       in Inr (date_field @ '' | '' @ level_field @ '' | '' @ loc_field
                               @ '' | '' @ msg_field)))"

text \<open>\<^verbatim>\<open>sep.join(xs)\<close>.\<close>

fun join :: "string \<Rightarrow> string list \<Rightarrow> string" where
  "join sep [] = []"
| "join sep [x] = x"
| "join sep (x # y # ys) = x @ sep @ join sep (y # ys)"

section \<open>The logging facility: loggers, handlers, files\<close>

text \<open>
  The part of the process that \<^verbatim>\<open>setup_logger\<close> reads and writes: the registry of
  named loggers (\<^verbatim>\<open>Logger.manager.loggerDict\<close>), the root logger, the directories and
  files of the file system, and the text written to the standard streams. Whether
  creating a directory or opening a file fails (permissions, an invalid path) is decided
  by the environment: \<open>mkdir_error\<close> and \<open>open_error\<close> give the exception for the paths
  that fail. Paths are compared as written.
\<close>

datatype stream = Stdout | Stderr

datatype dest =
  StreamDest stream
  | FileDest string string string \<comment> \<open>file name, mode, encoding\<close>

record handler =
  h_dest :: dest
  h_level :: int
  h_formatter :: "my_formatter option"

record logger =
  lg_level :: int
  lg_handlers :: "handler list"
  lg_propagate :: bool

record process =
  loggerDict :: "string \<rightharpoonup> logger"
  root_logger :: logger
  fs_dirs :: "string set"
  fs_files :: "string \<rightharpoonup> string"
  mkdir_error :: "string \<rightharpoonup> py_error"
  open_error :: "string \<rightharpoonup> py_error"
  stdout_buf :: string
  stderr_buf :: string

definition NOTSET :: int where "NOTSET = 0"

text \<open>\<^verbatim>\<open>os.path.exists\<close>.\<close>

definition path_exists :: "process \<Rightarrow> string \<Rightarrow> bool" where
  "path_exists st p \<longleftrightarrow> p \<in> fs_dirs st \<or> fs_files st p \<noteq> None"

text \<open>The proper ancestors of a path: its prefixes that end before a \<^verbatim>\<open>/\<close>.\<close>

definition parent_dirs :: "string \<Rightarrow> string list" where
  "parent_dirs p = map (\<lambda>i. take i p) (filter (\<lambda>i. p ! i = CHR ''/'') [1..<length p])"

text \<open>
  \<^verbatim>\<open>os.makedirs(p, exist_ok=True)\<close>: the directory and its missing ancestors are
  created, or the call raises. Which ancestors a failing call created before it failed
  is not tracked.
\<close>

definition makedirs :: "string \<Rightarrow> process \<Rightarrow> py_error + process" where
  "makedirs p st =
     (if p = [] then Inl FileNotFoundError
      else if fs_files st p \<noteq> None then Inl FileExistsError
      else (case mkdir_error st p of
              Some e \<Rightarrow> Inl e
            | None \<Rightarrow> Inr (st\<lparr>fs_dirs := fs_dirs st \<union> set (parent_dirs p) \<union> {p}\<rparr>)))"

text \<open>\<^verbatim>\<open>os.path.join(a, b)\<close> on POSIX.\<close>

definition path_join :: "string \<Rightarrow> string \<Rightarrow> string" where
  "path_join a b =
     (if b \<noteq> [] \<and> hd b = CHR ''/'' then b
      else if a = [] \<or> last a = CHR ''/'' then a @ b
      else a @ ''/'' @ b)"

text \<open>
  \<^verbatim>\<open>logging.getLogger(name)\<close>: the logger registered under the name, created with the
  defaults (level \<^verbatim>\<open>NOTSET\<close>, no handlers, propagating) when there is none. The caller's
  handle to the logger is its name.
\<close>

definition getLogger :: "string \<Rightarrow> process \<Rightarrow> process" where
  "getLogger name st =
     (case loggerDict st name of
        Some lg \<Rightarrow> st
      | None \<Rightarrow>
          st\<lparr>loggerDict := (loggerDict st)
                (name \<mapsto> \<lparr>lg_level = NOTSET, lg_handlers = [], lg_propagate = True\<rparr>)\<rparr>)"

definition update_logger :: "string \<Rightarrow> (logger \<Rightarrow> logger) \<Rightarrow> process \<Rightarrow> process" where
  "update_logger name f st =
     (case loggerDict st name of
        None \<Rightarrow> st
      | Some lg \<Rightarrow> st\<lparr>loggerDict := (loggerDict st)(name \<mapsto> f lg)\<rparr>)"

definition setLevel :: "string \<Rightarrow> int \<Rightarrow> process \<Rightarrow> process" where
  "setLevel name lvl = update_logger name (\<lambda>lg. lg\<lparr>lg_level := lvl\<rparr>)"

text \<open>
  \<^verbatim>\<open>Logger.hasHandlers\<close>: the logger has a handler, or it propagates and an ancestor
  has one. The only ancestor of a logger whose name has no dot is the root logger.
\<close>

definition hasHandlers :: "string \<Rightarrow> process \<Rightarrow> bool" where
  "hasHandlers name st =
     (case loggerDict st name of
        None \<Rightarrow> False
      | Some lg \<Rightarrow> lg_handlers lg \<noteq> [] \<or> (lg_propagate lg \<and> lg_handlers (root_logger st) \<noteq> []))"

text \<open>
  \<^verbatim>\<open>Logger.addHandler\<close>. A handler that was just constructed is a new object, so it
  is never in the list already and is appended.
\<close>

definition addHandler :: "string \<Rightarrow> handler \<Rightarrow> process \<Rightarrow> process" where
  "addHandler name h = update_logger name (\<lambda>lg. lg\<lparr>lg_handlers := lg_handlers lg @ [h]\<rparr>)"

definition StreamHandler :: "stream \<Rightarrow> handler" where
  "StreamHandler s = \<lparr>h_dest = StreamDest s, h_level = NOTSET, h_formatter = None\<rparr>"

text \<open>
  \<^verbatim>\<open>logging.FileHandler(filename, encoding=enc)\<close>: mode \<^verbatim>\<open>'a'\<close>, and the file is opened
  at once, which creates it when it is absent and keeps its content otherwise. The
  handler keeps the name as it was given, relative to the working directory.
\<close>

definition FileHandler :: "string \<Rightarrow> string \<Rightarrow> process \<Rightarrow> (py_error + handler) \<times> process" where
  "FileHandler filename enc st =
     (case open_error st filename of
        Some e \<Rightarrow> (Inl e, st)
      | None \<Rightarrow>
          (Inr \<lparr>h_dest = FileDest filename ''a'' enc, h_level = NOTSET, h_formatter = None\<rparr>,
           st\<lparr>fs_files := (fs_files st)
                 (filename \<mapsto> (case fs_files st filename of None \<Rightarrow> [] | Some c \<Rightarrow> c))\<rparr>))"

section \<open>\<^verbatim>\<open>setup_logger\<close>\<close>

text \<open>
  The function returns the logger (its name) or raises; the process state it leaves
  behind is returned in both cases.
\<close>

definition setup_logger :: "string \<Rightarrow> process \<Rightarrow> (py_error + string) \<times> process" where
  "setup_logger log_folder st =
     (case (if \<not> path_exists st log_folder then makedirs log_folder st else Inr st) of
        Inl e \<Rightarrow> (Inl e, st)
      | Inr st1 \<Rightarrow>
          let log_file_path = path_join log_folder ''log.txt'';
              st2 = getLogger ''AppLogger'' st1;
              st3 = setLevel ''AppLogger'' DEBUG st2
          in if hasHandlers ''AppLogger'' st3 then (Inr ''AppLogger'', st3)
             else
               let stream_handler =
                     (StreamHandler Stdout)\<lparr>h_level := INFO, h_formatter := Some (MyFormatter True)\<rparr>;
                   st4 = addHandler ''AppLogger'' stream_handler st3
               in (case FileHandler log_file_path ''utf-8'' st4 of
                     (Inl e, st5) \<Rightarrow> (Inl e, st5)
                   | (Inr fh, st5) \<Rightarrow>
                       let file_handler =
                             fh\<lparr>h_level := DEBUG, h_formatter := Some (MyFormatter False)\<rparr>;
                           st6 = addHandler ''AppLogger'' file_handler st5
                       in (Inr ''AppLogger'', st6)))"

section \<open>Emitting a record\<close>

definition newline :: char where "newline = CHR 0x0A"









text \<open>\<^verbatim>\<open>logging.getLevelName\<close> for a level number.\<close>

definition getLevelName :: "int \<Rightarrow> string" where
  "getLevelName lvl =
     (if lvl = CRITICAL then ''CRITICAL''
      else if lvl = ERROR then ''ERROR''
      else if lvl = WARNING then ''WARNING''
      else if lvl = INFO then ''INFO''
      else if lvl = DEBUG then ''DEBUG''
      else if lvl = NOTSET then ''NOTSET''
      else ''Level '' @ int_str lvl)"




section \<open>Vocabulary of the properties\<close>

text \<open>
  A broken-down time as \<^verbatim>\<open>time.localtime\<close> returns it, for a date whose year has four
  digits: every field is in its calendar range.
\<close>

definition calendar_time :: "struct_time \<Rightarrow> bool" where
  "calendar_time t \<longleftrightarrow>
     1000 \<le> tm_year t \<and> tm_year t \<le> 9999 \<and> 1 \<le> tm_mon t \<and> tm_mon t \<le> 12 \<and>
     1 \<le> tm_mday t \<and> tm_mday t \<le> 31 \<and> 0 \<le> tm_hour t \<and> tm_hour t \<le> 23 \<and>
     0 \<le> tm_min t \<and> tm_min t \<le> 59 \<and> 0 \<le> tm_sec t \<and> tm_sec t \<le> 61"

text \<open>
  Every ANSI escape sequence starts with the character ESC, so a string without that
  character contains no escape sequence.
\<close>

definition has_ansi_escape :: "string \<Rightarrow> bool" where
  "has_ansi_escape s \<longleftrightarrow> ESC \<in> set s"

text \<open>
  A string has the shape of a pattern such as \<^verbatim>\<open>YYYY-MM-DD HH:MM:SS\<close> when it has a
  decimal digit wherever the pattern has a letter and the pattern's own character
  everywhere else.
\<close>

definition is_letter :: "char \<Rightarrow> bool" where
  "is_letter c \<longleftrightarrow> c \<in> set ''YMDHS''"

fun has_shape :: "string \<Rightarrow> string \<Rightarrow> bool" where
  "has_shape [] [] = True"
| "has_shape (p # ps) (c # cs) =
     ((if is_letter p then c \<in> set ''0123456789'' else c = p) \<and> has_shape ps cs)"
| "has_shape _ _ = False"

text \<open>
  The two handlers that \<^verbatim>\<open>setup_logger\<close> builds, after their \<^verbatim>\<open>setLevel\<close> and
  \<^verbatim>\<open>setFormatter\<close> calls.
\<close>

definition console_sink :: handler where
  "console_sink =
     \<lparr>h_dest = StreamDest Stdout, h_level = INFO, h_formatter = Some (MyFormatter True)\<rparr>"

definition file_sink :: "string \<Rightarrow> handler" where
  "file_sink p =
     \<lparr>h_dest = FileDest p ''a'' ''utf-8'', h_level = DEBUG, h_formatter = Some (MyFormatter False)\<rparr>"

text \<open>The first statement of \<^verbatim>\<open>setup_logger\<close>: create the directory unless the path exists.\<close>

definition ensure_dir :: "string \<Rightarrow> process \<Rightarrow> py_error + process" where
  "ensure_dir f st = (if \<not> path_exists st f then makedirs f st else Inr st)"

subsection \<open>Sample inputs\<close>

definition sample_time :: struct_time where
  "sample_time = \<lparr>tm_year = 2024, tm_mon = 3, tm_mday = 7, tm_hour = 9, tm_min = 5, tm_sec = 0\<rparr>"

definition sample_converter :: "real \<Rightarrow> py_error + struct_time" where
  "sample_converter x = Inr sample_time"

definition sample_record :: "string \<Rightarrow> int \<Rightarrow> py_obj \<Rightarrow> py_obj list \<Rightarrow> log_record" where
  "sample_record name lvl m as =
     \<lparr>levelname = name, levelno = lvl, pathname = ''/app/main.py'', lineno = 104,
      msg = m, args = as, created = 1709802300\<rparr>"

text \<open>A process in which nothing has configured logging and no directory exists yet.\<close>

definition fresh_process :: process where
  "fresh_process =
     \<lparr>loggerDict = Map.empty,
      root_logger = \<lparr>lg_level = WARNING, lg_handlers = [], lg_propagate = True\<rparr>,
      fs_dirs = {}, fs_files = Map.empty, mkdir_error = Map.empty, open_error = Map.empty,
      stdout_buf = [], stderr_buf = []\<rparr>"

text \<open>The fresh process after \<^verbatim>\<open>setup_logger("logs")\<close>.\<close>

definition configured_process :: process where
  "configured_process = snd (setup_logger ''logs'' fresh_process)"

section \<open>Facts about the library functions\<close>

lemma digit_char_digit: "k < 10 \<Longrightarrow> digit_char k \<in> set ''0123456789''"
  unfolding digit_char_def by (rule nth_mem) simp

lemma nat_str_digits: "set (nat_str n) \<subseteq> set ''0123456789''"
proof (induction n rule: nat_str.induct)
  case (1 n)
  show ?case
  proof (cases "n < 10")
    case True
    then show ?thesis using digit_char_digit[of n] by (subst nat_str.simps) simp
  next
    case False
    have "n mod 10 < 10" by simp
    with False 1 digit_char_digit[of "n mod 10"] show ?thesis by (subst nat_str.simps) simp
  qed
qed

lemma nat_str_1: "n < 10 \<Longrightarrow> nat_str n = [digit_char n]"
  by (subst nat_str.simps) simp

lemma nat_str_step: "10 \<le> n \<Longrightarrow> nat_str n = nat_str (n div 10) @ [digit_char (n mod 10)]"
  by (subst nat_str.simps) simp

lemma nat_str_2:
  "10 \<le> n \<Longrightarrow> n < 100 \<Longrightarrow> nat_str n = [digit_char (n div 10), digit_char (n mod 10)]"
  by (simp add: nat_str_step nat_str_1)

lemma nat_str_4:
  assumes "1000 \<le> n" "n < 10000"
  shows "nat_str n = [digit_char (n div 1000), digit_char (n div 100 mod 10),
                      digit_char (n div 10 mod 10), digit_char (n mod 10)]"
proof -
  have a: "nat_str n = nat_str (n div 10) @ [digit_char (n mod 10)]"
    using assms by (simp add: nat_str_step)
  have b: "nat_str (n div 10) = nat_str (n div 100) @ [digit_char (n div 10 mod 10)]"
    using assms by (simp add: nat_str_step div_mult2_eq[symmetric])
  have c: "nat_str (n div 100) = [digit_char (n div 1000), digit_char (n div 100 mod 10)]"
    using assms by (simp add: nat_str_2 div_mult2_eq[symmetric])
  show ?thesis by (simp add: a b c)
qed

lemma zpad2_2:
  assumes "0 \<le> i" "i < 100"
  shows "zpad2 i = [digit_char (nat i div 10), digit_char (nat i mod 10)]"
proof (cases "i < 10")
  case True
  then show ?thesis using assms by (simp add: zpad2_def int_str_def nat_str_1 digit_char_def)
next
  case False
  then show ?thesis using assms by (simp add: zpad2_def int_str_def nat_str_2)
qed

lemma checktm_calendar: "calendar_time t \<Longrightarrow> checktm t = Inr t"
  by (auto simp: calendar_time_def checktm_def Let_def)

lemma strftime_chars_datefmt:
  "strftime_chars ''%Y-%m-%d %H:%M:%S'' t =
     Inr (int_str (tm_year t) @ ''-'' @ zpad2 (tm_mon t) @ ''-'' @ zpad2 (tm_mday t) @ '' ''
          @ zpad2 (tm_hour t) @ '':'' @ zpad2 (tm_min t) @ '':'' @ zpad2 (tm_sec t))"
  by (simp add: prepend_def)

lemma strftime_calendar:
  assumes "calendar_time t"
  shows "strftime ''%Y-%m-%d %H:%M:%S'' t =
     Inr (int_str (tm_year t) @ ''-'' @ zpad2 (tm_mon t) @ ''-'' @ zpad2 (tm_mday t) @ '' ''
          @ zpad2 (tm_hour t) @ '':'' @ zpad2 (tm_min t) @ '':'' @ zpad2 (tm_sec t))"
  unfolding strftime_def by (simp only: checktm_calendar[OF assms] strftime_chars_datefmt sum.case)

lemma length_timestamp:
  assumes "calendar_time t" "strftime ''%Y-%m-%d %H:%M:%S'' t = Inr ts"
  shows "length ts = 19"
proof -
  have "1000 \<le> nat (tm_year t)" "nat (tm_year t) < 10000" "\<not> tm_year t < 0"
    using assms(1) unfolding calendar_time_def by linarith+
  then have y: "length (int_str (tm_year t)) = 4"
    by (simp add: int_str_def nat_str_4)
  have z: "\<And>i. 0 \<le> i \<Longrightarrow> i < 100 \<Longrightarrow> length (zpad2 i) = 2"
    by (simp add: zpad2_2)
  have "length (zpad2 (tm_mon t)) = 2" "length (zpad2 (tm_mday t)) = 2"
    "length (zpad2 (tm_hour t)) = 2" "length (zpad2 (tm_min t)) = 2" "length (zpad2 (tm_sec t)) = 2"
    using assms(1) by (simp_all add: calendar_time_def z)
  with y assms(2) show ?thesis
    by (auto simp: strftime_calendar[OF assms(1)])
qed

lemma sample_timestamp:
  "strftime ''%Y-%m-%d %H:%M:%S'' sample_time = Inr ''2024-03-07 09:05:00''"
  by (simp add: strftime_def checktm_def sample_time_def prepend_def
      int_str_def zpad2_def nat_str.simps digit_char_def)

section \<open>Facts about \<^verbatim>\<open>MyFormatter.format\<close>\<close>

lemma formatTime_converted:
  "converter (created r) = Inr t \<Longrightarrow>
   formatTime converter r (datefmt (MyFormatter uc)) = strftime ''%Y-%m-%d %H:%M:%S'' t"
  by (simp add: formatTime_def MyFormatter_def)

lemma format_plain:
  assumes "formatTime converter r (datefmt (MyFormatter False)) = Inr ts" and "getMessage r = Inr m"
  shows "format converter (MyFormatter False) r =
     Inr (ts @ '' | '' @ ljust (levelname r) LEVEL_WIDTH @ '' | ''
          @ (pathname r @ '':'' @ int_str (lineno r)) @ '' | '' @ m)"
  using assms by (simp add: format_def Let_def MyFormatter_def)

lemma format_color:
  assumes "formatTime converter r (datefmt (MyFormatter True)) = Inr ts" and "getMessage r = Inr m"
  shows "format converter (MyFormatter True) r =
     Inr ((GREEN @ ts @ RESET) @ '' | ''
          @ ((if levelno r = WARNING then YELLOW else if levelno r \<ge> ERROR then RED else GREY)
             @ ljust (levelname r) LEVEL_WIDTH @ RESET) @ '' | ''
          @ (BLUE @ (pathname r @ '':'' @ int_str (lineno r)) @ RESET) @ '' | ''
          @ ((if levelno r = WARNING then YELLOW else if levelno r \<ge> ERROR then RED else GREY)
             @ m @ RESET))"
  using assms by (simp add: format_def Let_def MyFormatter_def)

lemma ljust_width: "ljust s LEVEL_WIDTH = s @ replicate (8 - length s) CHR '' ''"
  by (simp add: ljust_def LEVEL_WIDTH_def)

lemma sample_evals:
  "replicate 4 CHR '' '' = ''    ''" "replicate 3 CHR '' '' = ''   ''" "int_str 104 = ''104''"
  by code_simp+

section \<open>The formatter's columns\<close>

text \<open>
  Claim C1. For every record the level field of the line is the level name, left-justified
  and padded on the right with spaces up to the width 8 (a longer name is left as it is
  and takes its own length). Hence, with colours off, for any two records whose level
  names have at most 8 characters the location field starts at the same offset of the
  line: 14 characters after the end of the timestamp, and so at offset 33 for timestamps
  of 19 characters, which all dates with a four-digit year have. The names of the five
  standard levels have at most 8 characters, and \<^verbatim>\<open>CRITICAL\<close> fills the field with no
  padding.
\<close>

theorem level_column_fixes_location_offset:
  assumes "converter (created r1) = Inr t1" and "strftime ''%Y-%m-%d %H:%M:%S'' t1 = Inr ts1"
    and "converter (created r2) = Inr t2" and "strftime ''%Y-%m-%d %H:%M:%S'' t2 = Inr ts2"
    and "getMessage r1 = Inr m1" and "getMessage r2 = Inr m2"
  shows "\<exists>lv1 lv2.
     lv1 = levelname r1 @ replicate (8 - length (levelname r1)) CHR '' '' \<and>
     lv2 = levelname r2 @ replicate (8 - length (levelname r2)) CHR '' '' \<and>
     length lv1 = max 8 (length (levelname r1)) \<and>
     length lv2 = max 8 (length (levelname r2)) \<and>
     format converter (MyFormatter False) r1 =
       Inr ((ts1 @ '' | '' @ lv1 @ '' | '')
            @ (pathname r1 @ '':'' @ int_str (lineno r1)) @ '' | '' @ m1) \<and>
     format converter (MyFormatter False) r2 =
       Inr ((ts2 @ '' | '' @ lv2 @ '' | '')
            @ (pathname r2 @ '':'' @ int_str (lineno r2)) @ '' | '' @ m2) \<and>
     (length (levelname r1) \<le> 8 \<and> length (levelname r2) \<le> 8 \<longrightarrow>
        length lv1 = 8 \<and> length lv2 = 8 \<and>
        length (ts1 @ '' | '' @ lv1 @ '' | '') = length ts1 + 14 \<and>
        length (ts2 @ '' | '' @ lv2 @ '' | '') = length ts2 + 14 \<and>
        (calendar_time t1 \<and> calendar_time t2 \<longrightarrow>
           length (ts1 @ '' | '' @ lv1 @ '' | '') = 33 \<and>
           length (ts2 @ '' | '' @ lv2 @ '' | '') = 33)) \<and>
     (\<forall>lvl \<in> {DEBUG, INFO, WARNING, ERROR, CRITICAL}. length (getLevelName lvl) \<le> 8) \<and>
     ljust ''CRITICAL'' LEVEL_WIDTH = ''CRITICAL''"
proof -
  have l1: "calendar_time t1 \<longrightarrow> length ts1 = 19" using length_timestamp[OF _ assms(2)] by blast
  have l2: "calendar_time t2 \<longrightarrow> length ts2 = 19" using length_timestamp[OF _ assms(4)] by blast
  have f1: "formatTime converter r1 (datefmt (MyFormatter False)) = Inr ts1"
    using formatTime_converted[of converter r1 t1 False] assms(1,2) by simp
  have f2: "formatTime converter r2 (datefmt (MyFormatter False)) = Inr ts2"
    using formatTime_converted[of converter r2 t2 False] assms(3,4) by simp
  have o1: "format converter (MyFormatter False) r1 =
       Inr ((ts1 @ '' | '' @ ljust (levelname r1) LEVEL_WIDTH @ '' | '')
            @ (pathname r1 @ '':'' @ int_str (lineno r1)) @ '' | '' @ m1)"
    using format_plain[OF f1 assms(5)] by simp
  have o2: "format converter (MyFormatter False) r2 =
       Inr ((ts2 @ '' | '' @ ljust (levelname r2) LEVEL_WIDTH @ '' | '')
            @ (pathname r2 @ '':'' @ int_str (lineno r2)) @ '' | '' @ m2)"
    using format_plain[OF f2 assms(6)] by simp
  have c: "ljust ''CRITICAL'' LEVEL_WIDTH = ''CRITICAL''"
    by (simp add: ljust_def LEVEL_WIDTH_def)
  have n: "\<forall>lvl \<in> {DEBUG, INFO, WARNING, ERROR, CRITICAL}. length (getLevelName lvl) \<le> 8"
    by (simp add: getLevelName_def DEBUG_def INFO_def WARNING_def ERROR_def CRITICAL_def)
  show ?thesis
    apply (rule exI[of _ "ljust (levelname r1) LEVEL_WIDTH"])
    apply (rule exI[of _ "ljust (levelname r2) LEVEL_WIDTH"])
    using l1 l2 o1 o2 c n
    by (simp add: ljust_width max_def)
qed

theorem level_column_fixes_location_offset_witness:
  "sample_converter (created (sample_record ''INFO'' 20 (PyStr ''Process started.'') []))
     = Inr sample_time \<and>
   strftime ''%Y-%m-%d %H:%M:%S'' sample_time = Inr ''2024-03-07 09:05:00'' \<and>
   calendar_time sample_time \<and>
   getMessage (sample_record ''INFO'' 20 (PyStr ''Process started.'') [])
     = Inr ''Process started.'' \<and>
   getMessage (sample_record ''WARNING'' 30 (PyStr ''Configuration file not found.'') [])
     = Inr ''Configuration file not found.'' \<and>
   format sample_converter (MyFormatter False)
       (sample_record ''INFO'' 20 (PyStr ''Process started.'') [])
     = Inr (''2024-03-07 09:05:00 | INFO     | '' @ ''/app/main.py:104 | Process started.'') \<and>
   format sample_converter (MyFormatter False)
       (sample_record ''WARNING'' 30 (PyStr ''Configuration file not found.'') [])
     = Inr (''2024-03-07 09:05:00 | WARNING  | ''
            @ ''/app/main.py:104 | Configuration file not found.'') \<and>
   length ''2024-03-07 09:05:00 | INFO     | '' = 33 \<and>
   length ''2024-03-07 09:05:00 | WARNING  | '' = 33"
proof -
  let ?r1 = "sample_record ''INFO'' 20 (PyStr ''Process started.'') []"
  let ?r2 = "sample_record ''WARNING'' 30 (PyStr ''Configuration file not found.'') []"
  have c1: "sample_converter (created ?r1) = Inr sample_time" by (simp add: sample_converter_def)
  have c2: "sample_converter (created ?r2) = Inr sample_time" by (simp add: sample_converter_def)
  have ct: "calendar_time sample_time" by (simp add: calendar_time_def sample_time_def)
  have m1: "getMessage ?r1 = Inr ''Process started.''"
    by (simp add: getMessage_def sample_record_def)
  have m2: "getMessage ?r2 = Inr ''Configuration file not found.''"
    by (simp add: getMessage_def sample_record_def)
  from level_column_fixes_location_offset[of sample_converter ?r1 sample_time
      "''2024-03-07 09:05:00''" ?r2 sample_time "''2024-03-07 09:05:00''"
      "''Process started.''" "''Configuration file not found.''"]
    sample_timestamp c1 c2 ct m1 m2
  show ?thesis
    by (auto simp: sample_record_def sample_evals)
qed

lemma color_lengths: "length GREY = 8" "length YELLOW = 8" "length RED = 8"
  "length GREEN = 8" "length BLUE = 8" "length RESET = 4"
  by (simp_all add: GREY_def YELLOW_def RED_def GREEN_def BLUE_def RESET_def)

lemma colors_distinct:
  "YELLOW \<noteq> RED" "YELLOW \<noteq> GREY" "RED \<noteq> GREY" "GREEN \<noteq> BLUE"
  "GREEN \<noteq> YELLOW" "GREEN \<noteq> RED" "GREEN \<noteq> GREY"
  "BLUE \<noteq> YELLOW" "BLUE \<noteq> RED" "BLUE \<noteq> GREY"
  by (simp_all add: GREY_def YELLOW_def RED_def GREEN_def BLUE_def)

text \<open>
  Claim C2. With colours on, the level field and the message field of every record are
  wrapped in one colour \<open>c\<close> chosen by severity: the warning colour exactly for level
  \<^verbatim>\<open>WARNING\<close>, the error colour exactly for \<^verbatim>\<open>ERROR\<close> and every level above it, and the
  neutral colour for all others, among them \<^verbatim>\<open>DEBUG\<close> and \<^verbatim>\<open>INFO\<close>. The timestamp is
  always wrapped in \<open>GREEN\<close> and the location in \<open>BLUE\<close>, two fixed codes that differ
  from each other and from the three severity colours.
\<close>

theorem color_by_severity:
  assumes "formatTime converter r (datefmt (MyFormatter True)) = Inr ts"
    and "getMessage r = Inr m"
  shows "\<exists>c.
     format converter (MyFormatter True) r =
       Inr ((GREEN @ ts @ RESET) @ '' | ''
            @ (c @ ljust (levelname r) LEVEL_WIDTH @ RESET) @ '' | ''
            @ (BLUE @ (pathname r @ '':'' @ int_str (lineno r)) @ RESET) @ '' | ''
            @ (c @ m @ RESET)) \<and>
     (c = YELLOW \<longleftrightarrow> levelno r = WARNING) \<and>
     (c = RED \<longleftrightarrow> ERROR \<le> levelno r) \<and>
     (c = GREY \<longleftrightarrow> levelno r \<noteq> WARNING \<and> levelno r < ERROR) \<and>
     (levelno r = DEBUG \<or> levelno r = INFO \<longrightarrow> c = GREY) \<and>
     (levelno r = ERROR \<or> levelno r = CRITICAL \<longrightarrow> c = RED) \<and>
     GREEN \<noteq> BLUE \<and> GREEN \<notin> {GREY, YELLOW, RED} \<and> BLUE \<notin> {GREY, YELLOW, RED}"
proof -
  let ?c = "if levelno r = WARNING then YELLOW else if levelno r \<ge> ERROR then RED else GREY"
  have "format converter (MyFormatter True) r =
       Inr ((GREEN @ ts @ RESET) @ '' | ''
            @ (?c @ ljust (levelname r) LEVEL_WIDTH @ RESET) @ '' | ''
            @ (BLUE @ (pathname r @ '':'' @ int_str (lineno r)) @ RESET) @ '' | ''
            @ (?c @ m @ RESET))"
    by (rule format_color[OF assms])
  moreover have "(?c = YELLOW \<longleftrightarrow> levelno r = WARNING)"
    "(?c = RED \<longleftrightarrow> ERROR \<le> levelno r)"
    "(?c = GREY \<longleftrightarrow> levelno r \<noteq> WARNING \<and> levelno r < ERROR)"
    "(levelno r = DEBUG \<or> levelno r = INFO \<longrightarrow> ?c = GREY)"
    "(levelno r = ERROR \<or> levelno r = CRITICAL \<longrightarrow> ?c = RED)"
    using colors_distinct
    by (auto simp: WARNING_def ERROR_def DEBUG_def INFO_def CRITICAL_def)
  moreover have "GREEN \<noteq> BLUE \<and> GREEN \<notin> {GREY, YELLOW, RED} \<and> BLUE \<notin> {GREY, YELLOW, RED}"
    using colors_distinct by simp
  ultimately show ?thesis by blast
qed


theorem color_by_severity_witness:
  "formatTime sample_converter (sample_record ''WARNING'' 30 (PyStr ''Disk almost full'') [])
       (datefmt (MyFormatter True)) = Inr ''2024-03-07 09:05:00'' \<and>
   getMessage (sample_record ''WARNING'' 30 (PyStr ''Disk almost full'') [])
     = Inr ''Disk almost full'' \<and>
   format sample_converter (MyFormatter True)
       (sample_record ''WARNING'' 30 (PyStr ''Disk almost full'') [])
     = Inr (GREEN @ ''2024-03-07 09:05:00'' @ RESET @ '' | ''
            @ YELLOW @ ''WARNING '' @ RESET @ '' | ''
            @ BLUE @ ''/app/main.py:104'' @ RESET @ '' | ''
            @ YELLOW @ ''Disk almost full'' @ RESET)"
proof -
  let ?r = "sample_record ''WARNING'' 30 (PyStr ''Disk almost full'') []"
  have t: "formatTime sample_converter ?r (datefmt (MyFormatter True)) = Inr ''2024-03-07 09:05:00''"
    using formatTime_converted[of sample_converter ?r sample_time True]
    by (simp add: sample_converter_def sample_timestamp)
  have m: "getMessage ?r = Inr ''Disk almost full''"
    by (simp add: getMessage_def sample_record_def)
  have w: "levelno ?r = WARNING" by (simp add: sample_record_def WARNING_def)
  from color_by_severity[OF t m] w t m show ?thesis
    by (auto simp: sample_record_def sample_evals ljust_width)
qed

text \<open>
  Claim C10. With colours on, for any two records whose level names have at most 8
  characters the location field starts at the same offset of the line: the three
  severity colour codes have the same length 8 and the codes around the timestamp and
  the level field are fixed, so the offset is the length of the timestamp plus 38, which
  is 57 for timestamps of 19 characters, as all dates with a four-digit year have.
\<close>

theorem colored_location_offset_fixed:
  assumes "converter (created r1) = Inr t1" and "strftime ''%Y-%m-%d %H:%M:%S'' t1 = Inr ts1"
    and "converter (created r2) = Inr t2" and "strftime ''%Y-%m-%d %H:%M:%S'' t2 = Inr ts2"
    and "getMessage r1 = Inr m1" and "getMessage r2 = Inr m2"
    and "length (levelname r1) \<le> 8" and "length (levelname r2) \<le> 8"
  shows "\<exists>c1 c2.
     c1 \<in> {GREY, YELLOW, RED} \<and> c2 \<in> {GREY, YELLOW, RED} \<and>
     length GREY = 8 \<and> length YELLOW = 8 \<and> length RED = 8 \<and>
     format converter (MyFormatter True) r1 =
       Inr (((GREEN @ ts1 @ RESET) @ '' | ''
             @ (c1 @ ljust (levelname r1) LEVEL_WIDTH @ RESET) @ '' | '')
            @ (BLUE @ (pathname r1 @ '':'' @ int_str (lineno r1)) @ RESET) @ '' | ''
            @ (c1 @ m1 @ RESET)) \<and>
     format converter (MyFormatter True) r2 =
       Inr (((GREEN @ ts2 @ RESET) @ '' | ''
             @ (c2 @ ljust (levelname r2) LEVEL_WIDTH @ RESET) @ '' | '')
            @ (BLUE @ (pathname r2 @ '':'' @ int_str (lineno r2)) @ RESET) @ '' | ''
            @ (c2 @ m2 @ RESET)) \<and>
     length ((GREEN @ ts1 @ RESET) @ '' | ''
             @ (c1 @ ljust (levelname r1) LEVEL_WIDTH @ RESET) @ '' | '') = length ts1 + 38 \<and>
     length ((GREEN @ ts2 @ RESET) @ '' | ''
             @ (c2 @ ljust (levelname r2) LEVEL_WIDTH @ RESET) @ '' | '') = length ts2 + 38 \<and>
     (calendar_time t1 \<and> calendar_time t2 \<longrightarrow>
        length ((GREEN @ ts1 @ RESET) @ '' | ''
                @ (c1 @ ljust (levelname r1) LEVEL_WIDTH @ RESET) @ '' | '') = 57 \<and>
        length ((GREEN @ ts2 @ RESET) @ '' | ''
                @ (c2 @ ljust (levelname r2) LEVEL_WIDTH @ RESET) @ '' | '') = 57)"
proof -
  let ?c1 = "if levelno r1 = WARNING then YELLOW else if levelno r1 \<ge> ERROR then RED else GREY"
  let ?c2 = "if levelno r2 = WARNING then YELLOW else if levelno r2 \<ge> ERROR then RED else GREY"
  have l1: "calendar_time t1 \<longrightarrow> length ts1 = 19" using length_timestamp[OF _ assms(2)] by blast
  have l2: "calendar_time t2 \<longrightarrow> length ts2 = 19" using length_timestamp[OF _ assms(4)] by blast
  have f1: "formatTime converter r1 (datefmt (MyFormatter True)) = Inr ts1"
    using formatTime_converted[of converter r1 t1 True] assms(1,2) by simp
  have f2: "formatTime converter r2 (datefmt (MyFormatter True)) = Inr ts2"
    using formatTime_converted[of converter r2 t2 True] assms(3,4) by simp
  note o1 = format_color[OF f1 assms(5)]
  note o2 = format_color[OF f2 assms(6)]
  have c: "?c1 \<in> {GREY, YELLOW, RED}" "?c2 \<in> {GREY, YELLOW, RED}" by simp_all
  have lc: "length ?c1 = 8" "length ?c2 = 8" by (simp_all add: color_lengths)
  have lj: "length (ljust (levelname r1) LEVEL_WIDTH) = 8"
    "length (ljust (levelname r2) LEVEL_WIDTH) = 8"
    using assms(7,8) by (simp_all add: ljust_width)
  have p1: "length ((GREEN @ ts1 @ RESET) @ '' | ''
             @ (?c1 @ ljust (levelname r1) LEVEL_WIDTH @ RESET) @ '' | '') = length ts1 + 38"
    using lc(1) lj(1) by (simp add: color_lengths)
  have p2: "length ((GREEN @ ts2 @ RESET) @ '' | ''
             @ (?c2 @ ljust (levelname r2) LEVEL_WIDTH @ RESET) @ '' | '') = length ts2 + 38"
    using lc(2) lj(2) by (simp add: color_lengths)
  have q: "calendar_time t1 \<and> calendar_time t2 \<longrightarrow>
        length ((GREEN @ ts1 @ RESET) @ '' | ''
                @ (?c1 @ ljust (levelname r1) LEVEL_WIDTH @ RESET) @ '' | '') = 57 \<and>
        length ((GREEN @ ts2 @ RESET) @ '' | ''
                @ (?c2 @ ljust (levelname r2) LEVEL_WIDTH @ RESET) @ '' | '') = 57"
    using p1 p2 l1 l2 by simp
  show ?thesis
    apply (rule exI[of _ ?c1], rule exI[of _ ?c2])
    apply (intro conjI)
    using c o1 o2 p1 p2 q
    by (simp_all only: color_lengths append_assoc)
qed

theorem colored_location_offset_fixed_witness:
  "sample_converter (created (sample_record ''INFO'' 20 (PyStr ''Task finished.'') []))
     = Inr sample_time \<and>
   strftime ''%Y-%m-%d %H:%M:%S'' sample_time = Inr ''2024-03-07 09:05:00'' \<and>
   calendar_time sample_time \<and>
   getMessage (sample_record ''INFO'' 20 (PyStr ''Task finished.'') []) = Inr ''Task finished.'' \<and>
   getMessage (sample_record ''ERROR'' 40 (PyStr ''Calculation failed'') [])
     = Inr ''Calculation failed'' \<and>
   length ''INFO'' \<le> (8::nat) \<and> length ''ERROR'' \<le> (8::nat) \<and>
   format sample_converter (MyFormatter True) (sample_record ''INFO'' 20 (PyStr ''Task finished.'') [])
     = Inr ((GREEN @ ''2024-03-07 09:05:00'' @ RESET @ '' | '' @ GREY @ ''INFO    '' @ RESET @ '' | '')
            @ BLUE @ ''/app/main.py:104'' @ RESET @ '' | '' @ GREY @ ''Task finished.'' @ RESET) \<and>
   format sample_converter (MyFormatter True)
       (sample_record ''ERROR'' 40 (PyStr ''Calculation failed'') [])
     = Inr ((GREEN @ ''2024-03-07 09:05:00'' @ RESET @ '' | '' @ RED @ ''ERROR   '' @ RESET @ '' | '')
            @ BLUE @ ''/app/main.py:104'' @ RESET @ '' | '' @ RED @ ''Calculation failed'' @ RESET) \<and>
   length (GREEN @ ''2024-03-07 09:05:00'' @ RESET @ '' | '' @ GREY @ ''INFO    '' @ RESET @ '' | '')
     = length (GREEN @ ''2024-03-07 09:05:00'' @ RESET @ '' | '' @ RED @ ''ERROR   '' @ RESET @ '' | '')"
proof -
  let ?r1 = "sample_record ''INFO'' 20 (PyStr ''Task finished.'') []"
  let ?r2 = "sample_record ''ERROR'' 40 (PyStr ''Calculation failed'') []"
  have c1: "sample_converter (created ?r1) = Inr sample_time" by (simp add: sample_converter_def)
  have c2: "sample_converter (created ?r2) = Inr sample_time" by (simp add: sample_converter_def)
  have ct: "calendar_time sample_time" by (simp add: calendar_time_def sample_time_def)
  have m1: "getMessage ?r1 = Inr ''Task finished.''"
    by (simp add: getMessage_def sample_record_def)
  have m2: "getMessage ?r2 = Inr ''Calculation failed''"
    by (simp add: getMessage_def sample_record_def)
  have n1: "length (levelname ?r1) \<le> 8" and n2: "length (levelname ?r2) \<le> 8"
    by (simp_all add: sample_record_def)
  have ts: "strftime (datefmt (MyFormatter True)) sample_time = Inr ''2024-03-07 09:05:00''"
    by (simp add: sample_timestamp MyFormatter_def)
  have o1: "format sample_converter (MyFormatter True) ?r1
     = Inr ((GREEN @ ''2024-03-07 09:05:00'' @ RESET @ '' | '' @ GREY @ ''INFO    '' @ RESET @ '' | '')
            @ BLUE @ ''/app/main.py:104'' @ RESET @ '' | '' @ GREY @ ''Task finished.'' @ RESET)"
    using format_color[of sample_converter ?r1 "''2024-03-07 09:05:00''" "''Task finished.''"]
      formatTime_converted[of sample_converter ?r1 sample_time True] c1 ts m1
    by (simp add: sample_record_def sample_evals ljust_width MyFormatter_def
        WARNING_def ERROR_def)
  have o2: "format sample_converter (MyFormatter True) ?r2
     = Inr ((GREEN @ ''2024-03-07 09:05:00'' @ RESET @ '' | '' @ RED @ ''ERROR   '' @ RESET @ '' | '')
            @ BLUE @ ''/app/main.py:104'' @ RESET @ '' | '' @ RED @ ''Calculation failed'' @ RESET)"
    using format_color[of sample_converter ?r2 "''2024-03-07 09:05:00''" "''Calculation failed''"]
      formatTime_converted[of sample_converter ?r2 sample_time True] c2 ts m2
    by (simp add: sample_record_def sample_evals ljust_width MyFormatter_def
        WARNING_def ERROR_def)
  from colored_location_offset_fixed[of sample_converter ?r1 sample_time
      "''2024-03-07 09:05:00''" ?r2 sample_time "''2024-03-07 09:05:00''"
      "''Task finished.''" "''Calculation failed''"]
    sample_timestamp c1 c2 ct m1 m2 n1 n2 o1 o2
  show ?thesis
    by (simp add: color_lengths)
qed

lemma ESC_not_digit: "ESC \<notin> set ''0123456789''"
  by (simp add: ESC_def)

lemma no_escape_nat_str: "ESC \<notin> set (nat_str n)"
  using nat_str_digits[of n] ESC_not_digit by blast

lemma no_escape_int_str: "ESC \<notin> set (int_str i)"
  using no_escape_nat_str by (simp add: int_str_def ESC_def)

lemma no_escape_zpad2: "ESC \<notin> set (zpad2 i)"
  using no_escape_int_str by (simp add: zpad2_def ESC_def)

lemma no_escape_timestamp:
  assumes "strftime ''%Y-%m-%d %H:%M:%S'' t = Inr ts"
  shows "ESC \<notin> set ts"
proof -
  obtain t' where "strftime_chars ''%Y-%m-%d %H:%M:%S'' t' = Inr ts"
    using assms unfolding strftime_def by (cases "checktm t") auto
  then show ?thesis
    unfolding strftime_chars_datefmt
    using no_escape_int_str no_escape_zpad2 by (auto simp: ESC_def)
qed

lemma format_Inr_parts:
  assumes "format converter (MyFormatter uc) r = Inr out"
  obtains t ts m where "converter (created r) = Inr t"
    and "strftime ''%Y-%m-%d %H:%M:%S'' t = Inr ts"
    and "formatTime converter r (datefmt (MyFormatter uc)) = Inr ts"
    and "getMessage r = Inr m"
proof -
  obtain ts where ts: "formatTime converter r (datefmt (MyFormatter uc)) = Inr ts"
    using assms unfolding format_def
    by (cases "formatTime converter r (datefmt (MyFormatter uc))") auto
  obtain t where t: "converter (created r) = Inr t"
    using ts unfolding formatTime_def by (cases "converter (created r)") auto
  obtain m where m: "getMessage r = Inr m"
    using assms ts unfolding format_def
    by (cases "getMessage r") (auto simp: Let_def split: if_splits)
  have "strftime ''%Y-%m-%d %H:%M:%S'' t = Inr ts"
    using formatTime_converted[of converter r t uc] t ts by simp
  with t ts m that show ?thesis by blast
qed

section \<open>Escape sequences in the plain line\<close>

text \<open>
  Claim C3 says that with colours off the line contains no ANSI escape sequence for any
  level and any message. The formatter copies the message into the line as it is, so a
  message that carries an escape sequence puts it into the line: here the message
  \<^verbatim>\<open>"\x1b[31mALERT"\<close>.
\<close>

theorem plain_output_escape_counterexample:
  "format sample_converter (MyFormatter False)
       (sample_record ''INFO'' 20 (PyStr (ESC # ''[31mALERT'')) [])
     = Inr (''2024-03-07 09:05:00 | INFO     | /app/main.py:104 | '' @ ESC # ''[31mALERT'') \<and>
   has_ansi_escape
     (''2024-03-07 09:05:00 | INFO     | /app/main.py:104 | '' @ ESC # ''[31mALERT'')"
proof -
  let ?r = "sample_record ''INFO'' 20 (PyStr (ESC # ''[31mALERT'')) []"
  have t: "formatTime sample_converter ?r (datefmt (MyFormatter False)) = Inr ''2024-03-07 09:05:00''"
    using formatTime_converted[of sample_converter ?r sample_time False]
    by (simp add: sample_converter_def sample_timestamp)
  have m: "getMessage ?r = Inr (ESC # ''[31mALERT'')"
    by (simp add: getMessage_def sample_record_def)
  show ?thesis
    using format_plain[OF t m]
    by (simp add: sample_record_def sample_evals ljust_width has_ansi_escape_def)
qed

text \<open>
  Claim C3, as amended. With colours off the formatter adds no escape sequence of its
  own: the line contains the character ESC exactly when the level name, the path or the
  rendered message of the record contains it. The timestamp, the line number, the
  padding and the separators never do.
\<close>

theorem plain_output_adds_no_escape:
  assumes "format converter (MyFormatter False) r = Inr out"
  shows "\<exists>m. getMessage r = Inr m \<and>
     (has_ansi_escape out \<longleftrightarrow>
        has_ansi_escape (levelname r) \<or> has_ansi_escape (pathname r) \<or> has_ansi_escape m)"
proof -
  from assms obtain t ts m where t: "strftime ''%Y-%m-%d %H:%M:%S'' t = Inr ts"
    and f: "formatTime converter r (datefmt (MyFormatter False)) = Inr ts"
    and m: "getMessage r = Inr m"
    by (rule format_Inr_parts)
  have out: "out = ts @ '' | '' @ ljust (levelname r) LEVEL_WIDTH @ '' | ''
          @ (pathname r @ '':'' @ int_str (lineno r)) @ '' | '' @ m"
    using format_plain[OF f m] assms by simp
  have "ESC \<notin> set ts" using no_escape_timestamp[OF t] .
  moreover have "ESC \<notin> set (int_str (lineno r))" by (rule no_escape_int_str)
  moreover have "ESC \<noteq> CHR '' ''" "ESC \<noteq> CHR ''|''" "ESC \<noteq> CHR '':''"
    by (simp_all add: ESC_def)
  ultimately have "has_ansi_escape out \<longleftrightarrow>
        has_ansi_escape (levelname r) \<or> has_ansi_escape (pathname r) \<or> has_ansi_escape m"
    unfolding out has_ansi_escape_def ljust_width by auto
  with m show ?thesis by blast
qed

theorem plain_output_adds_no_escape_witness:
  "format sample_converter (MyFormatter False)
       (sample_record ''INFO'' 20 (PyStr ''Process started.'') [])
     = Inr ''2024-03-07 09:05:00 | INFO     | /app/main.py:104 | Process started.'' \<and>
   \<not> has_ansi_escape ''2024-03-07 09:05:00 | INFO     | /app/main.py:104 | Process started.''"
proof -
  let ?r = "sample_record ''INFO'' 20 (PyStr ''Process started.'') []"
  have t: "formatTime sample_converter ?r (datefmt (MyFormatter False)) = Inr ''2024-03-07 09:05:00''"
    using formatTime_converted[of sample_converter ?r sample_time False]
    by (simp add: sample_converter_def sample_timestamp)
  have m: "getMessage ?r = Inr ''Process started.''"
    by (simp add: getMessage_def sample_record_def)
  have o: "format sample_converter (MyFormatter False) ?r
     = Inr ''2024-03-07 09:05:00 | INFO     | /app/main.py:104 | Process started.''"
    using format_plain[OF t m] by (simp add: sample_record_def sample_evals ljust_width)
  have "\<not> has_ansi_escape (levelname ?r)" "\<not> has_ansi_escape (pathname ?r)"
    "\<not> has_ansi_escape ''Process started.''"
    by (simp_all add: has_ansi_escape_def sample_record_def ESC_def)
  with plain_output_adds_no_escape[OF o] m o show ?thesis by auto
qed


section \<open>The shape of the line\<close>

lemma four_digits:
  assumes "1000 \<le> i" "i \<le> 9999"
  shows "\<exists>a b c d. int_str i = [a, b, c, d] \<and> {a, b, c, d} \<subseteq> set ''0123456789''"
proof -
  let ?n = "nat i"
  have n: "1000 \<le> ?n" "?n < 10000" "\<not> i < 0" using assms by linarith+
  have "?n div 1000 < 10" "?n div 100 mod 10 < 10" "?n div 10 mod 10 < 10" "?n mod 10 < 10"
    using n by simp_all
  then have "{digit_char (?n div 1000), digit_char (?n div 100 mod 10),
      digit_char (?n div 10 mod 10), digit_char (?n mod 10)} \<subseteq> set ''0123456789''"
    using digit_char_digit by blast
  moreover have "int_str i = [digit_char (?n div 1000), digit_char (?n div 100 mod 10),
      digit_char (?n div 10 mod 10), digit_char (?n mod 10)]"
    using n by (simp add: int_str_def nat_str_4)
  ultimately show ?thesis by blast
qed

lemma two_digits:
  assumes "0 \<le> i" "i < 100"
  shows "\<exists>a b. zpad2 i = [a, b] \<and> {a, b} \<subseteq> set ''0123456789''"
proof -
  have "nat i div 10 < 10" "nat i mod 10 < 10" using assms by simp_all
  then have "{digit_char (nat i div 10), digit_char (nat i mod 10)} \<subseteq> set ''0123456789''"
    using digit_char_digit by blast
  with zpad2_2[OF assms] show ?thesis by blast
qed

lemma timestamp_shape:
  assumes "calendar_time t" and "strftime ''%Y-%m-%d %H:%M:%S'' t = Inr ts"
  shows "has_shape ''YYYY-MM-DD HH:MM:SS'' ts"
proof -
  have r: "1000 \<le> tm_year t" "tm_year t \<le> 9999" "0 \<le> tm_mon t" "tm_mon t < 100"
    "0 \<le> tm_mday t" "tm_mday t < 100" "0 \<le> tm_hour t" "tm_hour t < 100"
    "0 \<le> tm_min t" "tm_min t < 100" "0 \<le> tm_sec t" "tm_sec t < 100"
    using assms(1) unfolding calendar_time_def by linarith+
  obtain y1 y2 y3 y4 where y: "int_str (tm_year t) = [y1, y2, y3, y4]"
    "{y1, y2, y3, y4} \<subseteq> set ''0123456789''"
    using four_digits[OF r(1,2)] by blast
  obtain a1 a2 where a: "zpad2 (tm_mon t) = [a1, a2]" "{a1, a2} \<subseteq> set ''0123456789''"
    using two_digits[OF r(3,4)] by blast
  obtain b1 b2 where b: "zpad2 (tm_mday t) = [b1, b2]" "{b1, b2} \<subseteq> set ''0123456789''"
    using two_digits[OF r(5,6)] by blast
  obtain c1 c2 where c: "zpad2 (tm_hour t) = [c1, c2]" "{c1, c2} \<subseteq> set ''0123456789''"
    using two_digits[OF r(7,8)] by blast
  obtain d1 d2 where d: "zpad2 (tm_min t) = [d1, d2]" "{d1, d2} \<subseteq> set ''0123456789''"
    using two_digits[OF r(9,10)] by blast
  obtain e1 e2 where e: "zpad2 (tm_sec t) = [e1, e2]" "{e1, e2} \<subseteq> set ''0123456789''"
    using two_digits[OF r(11,12)] by blast
  have "ts = [y1, y2, y3, y4] @ ''-'' @ [a1, a2] @ ''-'' @ [b1, b2] @ '' ''
      @ [c1, c2] @ '':'' @ [d1, d2] @ '':'' @ [e1, e2]"
    using assms(2) unfolding strftime_calendar[OF assms(1)] y(1) a(1) b(1) c(1) d(1) e(1) by simp
  then show ?thesis
    using y(2) a(2) b(2) c(2) d(2) e(2) by (simp add: is_letter_def)
qed

text \<open>
  Claim C4 says that the string the formatter returns has no trailing newline, for every
  record. The message field is the last part of the string and is copied as it is, so
  with colours off a message that ends with a newline gives a string that ends with one:
  here the record of \<^verbatim>\<open>logger.info("Task finished.\n")\<close>.
\<close>

theorem format_trailing_newline_counterexample:
  "format sample_converter (MyFormatter False)
       (sample_record ''INFO'' 20 (PyStr (''Task finished.'' @ [newline])) [])
     = Inr (''2024-03-07 09:05:00 | INFO     | /app/main.py:104 | Task finished.'' @ [newline]) \<and>
   last (''2024-03-07 09:05:00 | INFO     | /app/main.py:104 | Task finished.'' @ [newline])
     = newline"
proof -
  let ?r = "sample_record ''INFO'' 20 (PyStr (''Task finished.'' @ [newline])) []"
  have t: "formatTime sample_converter ?r (datefmt (MyFormatter False)) = Inr ''2024-03-07 09:05:00''"
    using formatTime_converted[of sample_converter ?r sample_time False]
    by (simp add: sample_converter_def sample_timestamp)
  have m: "getMessage ?r = Inr (''Task finished.'' @ [newline])"
    by (simp add: getMessage_def sample_record_def)
  show ?thesis
    using format_plain[OF t m]
    by (simp add: sample_record_def sample_evals ljust_width)
qed

text \<open>
  Claim C4, as amended. For every record whose creation time and message render, the
  formatter returns one string: the four fields timestamp, level, location and message,
  in this order, joined by \<^verbatim>\<open>" | "\<close>. The timestamp is the rendering of the fixed date
  format \<^verbatim>\<open>%Y-%m-%d %H:%M:%S\<close> and, for a date with a four-digit year, has the shape
  \<^verbatim>\<open>YYYY-MM-DD HH:MM:SS\<close>; the location is the path, a colon and the line number. The
  formatter appends nothing after the message field, so no newline of its own: with
  colours off the string ends with a newline exactly when the message itself ends with
  one, and with colours on it ends with the reset code.
\<close>

theorem format_joins_four_fields:
  assumes "converter (created r) = Inr t" and "strftime ''%Y-%m-%d %H:%M:%S'' t = Inr ts"
    and "getMessage r = Inr m"
  shows "\<exists>c.
     datefmt (MyFormatter False) = ''%Y-%m-%d %H:%M:%S'' \<and>
     datefmt (MyFormatter True) = ''%Y-%m-%d %H:%M:%S'' \<and>
     (calendar_time t \<longrightarrow> has_shape ''YYYY-MM-DD HH:MM:SS'' ts) \<and>
     format converter (MyFormatter False) r =
       Inr (join '' | '' [ts, ljust (levelname r) LEVEL_WIDTH,
                          pathname r @ '':'' @ int_str (lineno r), m]) \<and>
     format converter (MyFormatter True) r =
       Inr (join '' | '' [GREEN @ ts @ RESET, c @ ljust (levelname r) LEVEL_WIDTH @ RESET,
                          BLUE @ (pathname r @ '':'' @ int_str (lineno r)) @ RESET,
                          c @ m @ RESET]) \<and>
     c \<in> {GREY, YELLOW, RED} \<and>
     (last (join '' | '' [ts, ljust (levelname r) LEVEL_WIDTH,
                          pathname r @ '':'' @ int_str (lineno r), m]) = newline
        \<longleftrightarrow> m \<noteq> [] \<and> last m = newline) \<and>
     last (join '' | '' [GREEN @ ts @ RESET, c @ ljust (levelname r) LEVEL_WIDTH @ RESET,
                         BLUE @ (pathname r @ '':'' @ int_str (lineno r)) @ RESET,
                         c @ m @ RESET]) \<noteq> newline"
proof -
  let ?c = "if levelno r = WARNING then YELLOW else if levelno r \<ge> ERROR then RED else GREY"
  have sh: "calendar_time t \<longrightarrow> has_shape ''YYYY-MM-DD HH:MM:SS'' ts"
    using timestamp_shape[OF _ assms(2)] by blast
  have f: "formatTime converter r (datefmt (MyFormatter uc)) = Inr ts" for uc
    using formatTime_converted[of converter r t uc] assms(1,2) by simp
  have p: "format converter (MyFormatter False) r =
       Inr (join '' | '' [ts, ljust (levelname r) LEVEL_WIDTH,
                          pathname r @ '':'' @ int_str (lineno r), m])"
    using format_plain[OF f assms(3)] by simp
  have q: "format converter (MyFormatter True) r =
       Inr (join '' | '' [GREEN @ ts @ RESET, ?c @ ljust (levelname r) LEVEL_WIDTH @ RESET,
                          BLUE @ (pathname r @ '':'' @ int_str (lineno r)) @ RESET,
                          ?c @ m @ RESET])"
    using format_color[OF f assms(3)] by simp
  have n: "(last (join '' | '' [ts, ljust (levelname r) LEVEL_WIDTH,
                          pathname r @ '':'' @ int_str (lineno r), m]) = newline
        \<longleftrightarrow> m \<noteq> [] \<and> last m = newline)"
    by (cases "m = []") (simp_all add: newline_def)
  have k: "last (join '' | '' [GREEN @ ts @ RESET, ?c @ ljust (levelname r) LEVEL_WIDTH @ RESET,
                         BLUE @ (pathname r @ '':'' @ int_str (lineno r)) @ RESET,
                         ?c @ m @ RESET]) \<noteq> newline"
    by (simp add: RESET_def newline_def)
  have c: "?c \<in> {GREY, YELLOW, RED}" by simp
  have d: "datefmt (MyFormatter False) = ''%Y-%m-%d %H:%M:%S''"
    "datefmt (MyFormatter True) = ''%Y-%m-%d %H:%M:%S''"
    by (simp_all add: MyFormatter_def)
  show ?thesis
    apply (rule exI[of _ ?c])
    using d sh p q c n k by (simp only: simp_thms)
qed

theorem format_joins_four_fields_witness:
  "sample_converter (created (sample_record ''ERROR'' 40 (PyStr ''Calculation failed'') []))
     = Inr sample_time \<and>
   strftime ''%Y-%m-%d %H:%M:%S'' sample_time = Inr ''2024-03-07 09:05:00'' \<and>
   calendar_time sample_time \<and>
   getMessage (sample_record ''ERROR'' 40 (PyStr ''Calculation failed'') [])
     = Inr ''Calculation failed'' \<and>
   has_shape ''YYYY-MM-DD HH:MM:SS'' ''2024-03-07 09:05:00'' \<and>
   format sample_converter (MyFormatter False)
       (sample_record ''ERROR'' 40 (PyStr ''Calculation failed'') [])
     = Inr ''2024-03-07 09:05:00 | ERROR    | /app/main.py:104 | Calculation failed''"
proof -
  let ?r = "sample_record ''ERROR'' 40 (PyStr ''Calculation failed'') []"
  have c: "sample_converter (created ?r) = Inr sample_time" by (simp add: sample_converter_def)
  have ct: "calendar_time sample_time" by (simp add: calendar_time_def sample_time_def)
  have m: "getMessage ?r = Inr ''Calculation failed''"
    by (simp add: getMessage_def sample_record_def)
  from format_joins_four_fields[of sample_converter ?r sample_time "''2024-03-07 09:05:00''"
      "''Calculation failed''"] c ct m sample_timestamp
  show ?thesis
    by (auto simp: sample_record_def sample_evals ljust_width)
qed

section \<open>Exceptions of the formatter\<close>






section \<open>Facts about \<^verbatim>\<open>setup_logger\<close> and emission\<close>

lemma ensure_dir_frame:
  assumes "ensure_dir f st = Inr s"
  shows "loggerDict s = loggerDict st" "root_logger s = root_logger st"
    "fs_files s = fs_files st" "open_error s = open_error st" "mkdir_error s = mkdir_error st"
    "stdout_buf s = stdout_buf st" "stderr_buf s = stderr_buf st"
  using assms unfolding ensure_dir_def makedirs_def
  by (auto split: if_splits option.splits)

lemma setup_logger_ensure:
  "setup_logger f st =
     (case ensure_dir f st of
        Inl e \<Rightarrow> (Inl e, st)
      | Inr st1 \<Rightarrow>
          let st3 = setLevel ''AppLogger'' DEBUG (getLogger ''AppLogger'' st1)
          in if hasHandlers ''AppLogger'' st3 then (Inr ''AppLogger'', st3)
             else (case FileHandler (path_join f ''log.txt'') ''utf-8''
                          (addHandler ''AppLogger'' console_sink st3) of
                     (Inl e, st5) \<Rightarrow> (Inl e, st5)
                   | (Inr fh, st5) \<Rightarrow>
                       (Inr ''AppLogger'',
                        addHandler ''AppLogger''
                          (fh\<lparr>h_level := DEBUG, h_formatter := Some (MyFormatter False)\<rparr>) st5)))"
  unfolding setup_logger_def ensure_dir_def console_sink_def StreamHandler_def
  by (cases "path_exists st f"; cases "makedirs f st")
     (simp_all add: Let_def split: prod.splits sum.splits)

lemma hasHandlers_setLevel [simp]:
  "hasHandlers n (setLevel n' lvl st) = hasHandlers n st"
  by (auto simp: hasHandlers_def setLevel_def update_logger_def split: option.splits)

lemma hasHandlers_getLogger_existing:
  "hasHandlers n st \<Longrightarrow> getLogger n st = st"
  by (auto simp: hasHandlers_def getLogger_def split: option.splits)

lemma hasHandlers_frame:
  "loggerDict s = loggerDict st \<Longrightarrow> root_logger s = root_logger st \<Longrightarrow>
   hasHandlers n s = hasHandlers n st"
  by (simp add: hasHandlers_def split: option.splits)

lemma hasHandlers_getLogger_frame:
  "loggerDict s = loggerDict st \<Longrightarrow> root_logger s = root_logger st \<Longrightarrow>
   hasHandlers n (getLogger n s) = hasHandlers n (getLogger n st)"
  by (auto simp: hasHandlers_def getLogger_def split: option.splits)

lemma setup_logger_configured:
  assumes "hasHandlers ''AppLogger'' (getLogger ''AppLogger'' st)"
  shows "setup_logger f st =
     (case ensure_dir f st of
        Inl e \<Rightarrow> (Inl e, st)
      | Inr s \<Rightarrow> (Inr ''AppLogger'', setLevel ''AppLogger'' DEBUG (getLogger ''AppLogger'' s)))"
proof (cases "ensure_dir f st")
  case (Inl e)
  then show ?thesis by (simp add: setup_logger_ensure)
next
  case (Inr s)
  have h: "hasHandlers ''AppLogger'' (getLogger ''AppLogger'' s)"
    using hasHandlers_getLogger_frame[OF ensure_dir_frame(1,2)[OF Inr]] assms by simp
  show ?thesis using Inr h by (simp add: setup_logger_ensure Let_def)
qed

lemma setup_logger_fresh:
  assumes "\<not> hasHandlers ''AppLogger'' (getLogger ''AppLogger'' st)"
    and "setup_logger f st = (Inr h, st')"
  shows "\<exists>s lg. ensure_dir f st = Inr s \<and> h = ''AppLogger'' \<and>
     open_error st (path_join f ''log.txt'') = None \<and>
     loggerDict (getLogger ''AppLogger'' st) ''AppLogger'' = Some lg \<and> lg_handlers lg = [] \<and>
     st' = s\<lparr>loggerDict := (loggerDict st)(''AppLogger'' \<mapsto>
                 lg\<lparr>lg_level := DEBUG,
                    lg_handlers := [console_sink, file_sink (path_join f ''log.txt'')]\<rparr>),
              fs_files := (fs_files st)(path_join f ''log.txt'' \<mapsto>
                 (case fs_files st (path_join f ''log.txt'') of None \<Rightarrow> [] | Some c \<Rightarrow> c))\<rparr>"
proof -
  obtain s where s: "ensure_dir f st = Inr s"
    using assms(2) by (cases "ensure_dir f st") (auto simp: setup_logger_ensure)
  note fr = ensure_dir_frame[OF s]
  have nh: "\<not> hasHandlers ''AppLogger'' (getLogger ''AppLogger'' s)"
    using assms(1) fr(1,2) by (auto simp: hasHandlers_def getLogger_def split: option.splits)
  show ?thesis
    using assms(2) nh fr
    apply (simp add: setup_logger_ensure s Let_def)
    apply (auto simp: FileHandler_def addHandler_def update_logger_def setLevel_def getLogger_def
        hasHandlers_def file_sink_def split: option.splits if_splits)
    done
qed







lemma setup_logger_fresh_logger:
  assumes "\<not> hasHandlers ''AppLogger'' (getLogger ''AppLogger'' st)"
    and "setup_logger f st = (Inr h, st')"
  shows "\<exists>lg. h = ''AppLogger'' \<and> loggerDict st' ''AppLogger'' = Some lg \<and> lg_level lg = DEBUG \<and>
     lg_handlers lg = [console_sink, file_sink (path_join f ''log.txt'')] \<and>
     (lg_propagate lg \<longrightarrow> lg_handlers (root_logger st') = []) \<and>
     fs_files st' (path_join f ''log.txt'') =
       Some (case fs_files st (path_join f ''log.txt'') of None \<Rightarrow> [] | Some c \<Rightarrow> c)"
proof -
  from setup_logger_fresh[OF assms] obtain s lg where
    s: "ensure_dir f st = Inr s" and h: "h = ''AppLogger''"
    and lg: "loggerDict (getLogger ''AppLogger'' st) ''AppLogger'' = Some lg" "lg_handlers lg = []"
    and st': "st' = s\<lparr>loggerDict := (loggerDict st)(''AppLogger'' \<mapsto>
                 lg\<lparr>lg_level := DEBUG,
                    lg_handlers := [console_sink, file_sink (path_join f ''log.txt'')]\<rparr>),
              fs_files := (fs_files st)(path_join f ''log.txt'' \<mapsto>
                 (case fs_files st (path_join f ''log.txt'') of None \<Rightarrow> [] | Some c \<Rightarrow> c))\<rparr>"
    by blast
  have "lg_propagate lg \<longrightarrow> lg_handlers (root_logger st) = []"
    using assms(1) lg by (auto simp: hasHandlers_def getLogger_def split: option.splits)
  then show ?thesis
    using h ensure_dir_frame(2)[OF s] by (simp add: st')
qed

section \<open>The logger that setup builds\<close>




lemma fresh_setup_returns: "fst (setup_logger ''logs'' fresh_process) = Inr ''AppLogger''"
  by (simp add: setup_logger_ensure ensure_dir_def makedirs_def path_exists_def fresh_process_def
      getLogger_def setLevel_def update_logger_def hasHandlers_def addHandler_def
      FileHandler_def Let_def)



lemma setLevel_idem:
  assumes "loggerDict st n = Some lg" and "lg_level lg = lvl"
  shows "setLevel n lvl st = st"
proof -
  have "lg\<lparr>lg_level := lvl\<rparr> = lg" using assms(2) by simp
  then have "(loggerDict st)(n \<mapsto> lg\<lparr>lg_level := lvl\<rparr>) = loggerDict st"
    using assms(1) by (simp add: fun_upd_idem_iff)
  then show ?thesis using assms(1) by (simp add: setLevel_def update_logger_def)
qed

lemma setup_logger_success:
  assumes "setup_logger f st = (Inr h, st')"
  shows "h = ''AppLogger'' \<and> hasHandlers ''AppLogger'' st' \<and>
     (\<exists>lg. loggerDict st' ''AppLogger'' = Some lg \<and> lg_level lg = DEBUG)"
proof (cases "hasHandlers ''AppLogger'' (getLogger ''AppLogger'' st)")
  case True
  from assms obtain s where s: "ensure_dir f st = Inr s"
    and r: "h = ''AppLogger''" "st' = setLevel ''AppLogger'' DEBUG (getLogger ''AppLogger'' s)"
    unfolding setup_logger_configured[OF True] by (cases "ensure_dir f st") auto
  have "hasHandlers ''AppLogger'' (getLogger ''AppLogger'' s)"
    using hasHandlers_getLogger_frame[OF ensure_dir_frame(1,2)[OF s]] True by simp
  then show ?thesis
    unfolding r
    by (auto simp: hasHandlers_def setLevel_def update_logger_def getLogger_def
        split: option.splits)
next
  case False
  from setup_logger_fresh_logger[OF False assms] show ?thesis
    by (auto simp: hasHandlers_def)
qed

section \<open>Failure of setup\<close>

text \<open>
  Claim C8. When the directory does not exist and creating it fails, \<^verbatim>\<open>setup_logger\<close>
  raises that very exception at once: it returns no logger, and the registry of loggers,
  the root logger, the files and standard output are left as they were, so no logger or
  handler was created and nothing ran after the failure. For a non-empty path the
  exception is the one the environment gives for creating that directory, for instance
  \<^verbatim>\<open>PermissionError\<close>.
\<close>

theorem setup_propagates_directory_failure:
  assumes "\<not> path_exists st folder" and "makedirs folder st = Inl e"
  shows "fst (setup_logger folder st) = Inl e \<and>
     (\<forall>h s. setup_logger folder st \<noteq> (Inr h, s)) \<and>
     loggerDict (snd (setup_logger folder st)) = loggerDict st \<and>
     root_logger (snd (setup_logger folder st)) = root_logger st \<and>
     fs_files (snd (setup_logger folder st)) = fs_files st \<and>
     stdout_buf (snd (setup_logger folder st)) = stdout_buf st \<and>
     (folder \<noteq> [] \<longrightarrow> mkdir_error st folder = Some e)"
proof -
  have "setup_logger folder st = (Inl e, st)"
    using assms by (simp add: setup_logger_ensure ensure_dir_def)
  moreover have "folder \<noteq> [] \<longrightarrow> mkdir_error st folder = Some e"
    using assms by (auto simp: makedirs_def path_exists_def split: option.splits if_splits)
  ultimately show ?thesis by simp
qed

theorem setup_propagates_directory_failure_witness:
  "\<not> path_exists (fresh_process\<lparr>mkdir_error := [''/root/logs'' \<mapsto> PermissionError]\<rparr>) ''/root/logs'' \<and>
   makedirs ''/root/logs'' (fresh_process\<lparr>mkdir_error := [''/root/logs'' \<mapsto> PermissionError]\<rparr>)
     = Inl PermissionError \<and>
   fst (setup_logger ''/root/logs''
          (fresh_process\<lparr>mkdir_error := [''/root/logs'' \<mapsto> PermissionError]\<rparr>))
     = Inl PermissionError \<and>
   loggerDict (snd (setup_logger ''/root/logs''
          (fresh_process\<lparr>mkdir_error := [''/root/logs'' \<mapsto> PermissionError]\<rparr>)))
     = Map.empty"
proof -
  let ?st = "fresh_process\<lparr>mkdir_error := [''/root/logs'' \<mapsto> PermissionError]\<rparr>"
  have a: "\<not> path_exists ?st ''/root/logs''"
    by (simp add: path_exists_def fresh_process_def)
  have b: "makedirs ''/root/logs'' ?st = Inl PermissionError"
    by (simp add: makedirs_def fresh_process_def)
  have c: "loggerDict ?st = Map.empty" by (simp add: fresh_process_def)
  from setup_propagates_directory_failure[OF a b] a b c show ?thesis by simp
qed

section \<open>Calling setup again\<close>

lemma repeated_setup:
  assumes "setup_logger f1 st0 = (Inr h1, st1)"
  shows "setup_logger f2 st1 =
     (case ensure_dir f2 st1 of Inl e \<Rightarrow> (Inl e, st1) | Inr s \<Rightarrow> (Inr h1, s))"
proof -
  from setup_logger_success[OF assms] obtain lg where
    h: "h1 = ''AppLogger''" and hh: "hasHandlers ''AppLogger'' st1"
    and lg: "loggerDict st1 ''AppLogger'' = Some lg" "lg_level lg = DEBUG"
    by blast
  have g: "hasHandlers ''AppLogger'' (getLogger ''AppLogger'' st1)"
    using hh by (simp add: hasHandlers_getLogger_existing)
  show ?thesis
  proof (cases "ensure_dir f2 st1")
    case (Inl e)
    then show ?thesis by (simp add: setup_logger_configured[OF g])
  next
    case (Inr s)
    have d: "loggerDict s ''AppLogger'' = Some lg"
      using ensure_dir_frame(1)[OF Inr] lg(1) by simp
    then have "getLogger ''AppLogger'' s = s" by (simp add: getLogger_def)
    moreover have "setLevel ''AppLogger'' DEBUG s = s" by (rule setLevel_idem[OF d lg(2)])
    ultimately show ?thesis using Inr h by (simp add: setup_logger_configured[OF g])
  qed
qed



lemma fresh_setup:
  "setup_logger ''logs'' fresh_process = (Inr ''AppLogger'', configured_process)"
  using fresh_setup_returns by (simp add: prod_eq_iff configured_process_def)

lemma configured_dirs: "fs_dirs configured_process = {''logs''}"
  unfolding configured_process_def
  by (simp add: setup_logger_ensure ensure_dir_def makedirs_def path_exists_def fresh_process_def
      getLogger_def setLevel_def update_logger_def hasHandlers_def addHandler_def
      FileHandler_def Let_def parent_dirs_def)

lemma configured_files:
  "fs_files configured_process = [''logs/log.txt'' \<mapsto> []]"
  "stdout_buf configured_process = []"
  "mkdir_error configured_process = Map.empty"
  unfolding configured_process_def
  by (simp_all add: setup_logger_ensure ensure_dir_def makedirs_def path_exists_def fresh_process_def
      getLogger_def setLevel_def update_logger_def hasHandlers_def addHandler_def
      FileHandler_def Let_def path_join_def)


text \<open>
  Claim C6 says that a repeated call of \<^verbatim>\<open>setup_logger\<close> changes no state, and in
  particular creates no directory for its argument. The existence check and
  \<^verbatim>\<open>os.makedirs\<close> come first in the function, before the test for handlers: after
  \<^verbatim>\<open>setup_logger("logs")\<close>, the call \<^verbatim>\<open>setup_logger("other")\<close> creates the directory
  \<^verbatim>\<open>other\<close>.
\<close>

theorem repeated_setup_creates_directory_counterexample:
  "setup_logger ''logs'' fresh_process = (Inr ''AppLogger'', configured_process) \<and>
   ''other'' \<notin> fs_dirs configured_process \<and>
   fst (setup_logger ''other'' configured_process) = Inr ''AppLogger'' \<and>
   ''other'' \<in> fs_dirs (snd (setup_logger ''other'' configured_process)) \<and>
   snd (setup_logger ''other'' configured_process) \<noteq> configured_process"
proof -
  have ne: "\<not> path_exists configured_process ''other''"
    by (simp add: path_exists_def configured_dirs configured_files)
  have mk: "makedirs ''other'' configured_process
      = Inr (configured_process\<lparr>fs_dirs := {''logs'', ''other''}\<rparr>)"
    unfolding makedirs_def
    by (simp add: configured_files configured_dirs parent_dirs_def insert_commute)
  have s2: "setup_logger ''other'' configured_process
      = (Inr ''AppLogger'', configured_process\<lparr>fs_dirs := {''logs'', ''other''}\<rparr>)"
    using repeated_setup[OF fresh_setup, of "''other''"] ne mk by (simp add: ensure_dir_def)
  have d: "fs_dirs (configured_process\<lparr>fs_dirs := {''logs'', ''other''}\<rparr>) \<noteq> fs_dirs configured_process"
    by (simp add: configured_dirs)
  then have "configured_process\<lparr>fs_dirs := {''logs'', ''other''}\<rparr> \<noteq> configured_process"
    by metis
  then show ?thesis
    using fresh_setup s2 by (simp add: configured_dirs)
qed

text \<open>
  Claim C6, as amended. After a successful setup, a repeated call returns the same
  logger and registers nothing. Called in the state the first call left, it changes
  nothing at all when the path of its argument exists; when the path does not exist it
  creates the directory (with its missing ancestors) and changes nothing else, or
  raises the error of the creation and leaves the loggers alone. In any later state in which the
  logger still has a handler, a successful call is the directory step followed by
  setting the logger's threshold to \<^verbatim>\<open>DEBUG\<close>: handlers, files and streams are left alone.
\<close>

theorem repeated_setup_only_ensures_directory:
  assumes "setup_logger f1 st0 = (Inr h1, st1)"
  shows "h1 = ''AppLogger'' \<and> hasHandlers ''AppLogger'' st1 \<and>
     (path_exists st1 f2 \<longrightarrow> setup_logger f2 st1 = (Inr h1, st1)) \<and>
     (\<not> path_exists st1 f2 \<longrightarrow>
        (\<forall>e. makedirs f2 st1 = Inl e \<longrightarrow>
           fst (setup_logger f2 st1) = Inl e \<and>
           loggerDict (snd (setup_logger f2 st1)) = loggerDict st1) \<and>
        (\<forall>s. makedirs f2 st1 = Inr s \<longrightarrow>
           setup_logger f2 st1
             = (Inr h1, st1\<lparr>fs_dirs := fs_dirs st1 \<union> set (parent_dirs f2) \<union> {f2}\<rparr>))) \<and>
     (\<forall>st s. hasHandlers ''AppLogger'' st \<and>
          (if \<not> path_exists st f2 then makedirs f2 st else Inr st) = Inr s
        \<longrightarrow> setup_logger f2 st = (Inr ''AppLogger'', setLevel ''AppLogger'' DEBUG s))"
proof -
  note rs = repeated_setup[OF assms, of f2]
  have a: "h1 = ''AppLogger'' \<and> hasHandlers ''AppLogger'' st1"
    using setup_logger_success[OF assms] by blast
  have b: "path_exists st1 f2 \<longrightarrow> setup_logger f2 st1 = (Inr h1, st1)"
    using rs by (simp add: ensure_dir_def)
  have c: "makedirs f2 st1 = Inl e \<longrightarrow>
           fst (setup_logger f2 st1) = Inl e \<and>
           loggerDict (snd (setup_logger f2 st1)) = loggerDict st1"
    if "\<not> path_exists st1 f2" for e
    using rs that by (simp add: ensure_dir_def)
  have d: "makedirs f2 st1 = Inr s \<longrightarrow>
           setup_logger f2 st1
             = (Inr h1, st1\<lparr>fs_dirs := fs_dirs st1 \<union> set (parent_dirs f2) \<union> {f2}\<rparr>)"
    if "\<not> path_exists st1 f2" for s
    using rs that by (auto simp: ensure_dir_def makedirs_def split: if_splits option.splits)
  have e: "setup_logger f2 st = (Inr ''AppLogger'', setLevel ''AppLogger'' DEBUG s)"
    if "hasHandlers ''AppLogger'' st"
      and "(if \<not> path_exists st f2 then makedirs f2 st else Inr st) = Inr s" for st s
  proof -
    have g: "hasHandlers ''AppLogger'' (getLogger ''AppLogger'' st)"
      using that(1) by (simp add: hasHandlers_getLogger_existing)
    have en: "ensure_dir f2 st = Inr s" using that(2) by (simp add: ensure_dir_def)
    have "hasHandlers ''AppLogger'' s"
      using hasHandlers_frame[OF ensure_dir_frame(1,2)[OF en]] that(1) by simp
    then have "getLogger ''AppLogger'' s = s" by (rule hasHandlers_getLogger_existing)
    then show ?thesis by (simp add: setup_logger_configured[OF g] en)
  qed
  show ?thesis using a b c d e by blast
qed

theorem repeated_setup_only_ensures_directory_witness:
  "setup_logger ''logs'' fresh_process = (Inr ''AppLogger'', configured_process) \<and>
   hasHandlers ''AppLogger'' configured_process \<and>
   path_exists configured_process ''logs'' \<and>
   setup_logger ''logs'' configured_process = (Inr ''AppLogger'', configured_process)"
proof -
  have ex: "path_exists configured_process ''logs''"
    by (simp add: path_exists_def configured_dirs)
  from repeated_setup_only_ensures_directory[OF fresh_setup, of "''logs''"] ex fresh_setup
  show ?thesis by blast
qed

end
